theory Spec2Isabelle
  imports Complex_Main "HOL-Library.Sublist"
begin

section \<open>Python primitives used by the analytics code\<close>

text \<open>
  The analytics core of the dashboard lives in two Python files:
  \<^verbatim>\<open>routes/data_refresh.py\<close> (the complaint classifier inside
  \<^verbatim>\<open>refresh_311_data\<close>) and \<^verbatim>\<open>services/predictions.py\<close>
  (class \<^verbatim>\<open>PredictionService\<close>).

  Conventions of the embedding:
  \<^item> Python \<^verbatim>\<open>int\<close> is \<^typ>\<open>int\<close>; Python \<^verbatim>\<open>float\<close> is idealised as
    \<^typ>\<open>real\<close> (the rounding error of IEEE doubles is not modelled);
  \<^item> Python \<^verbatim>\<open>str\<close> is \<^typ>\<open>string\<close>; case conversion and whitespace are
    modelled on the ASCII range;
  \<^item> a \<^verbatim>\<open>dict\<close> whose iteration order matters is an association list in
    insertion order.
\<close>

subsection \<open>Strings\<close>

definition ascii_uppercase :: string where
  "ascii_uppercase = ''ABCDEFGHIJKLMNOPQRSTUVWXYZ''"

definition ascii_lowercase :: string where
  "ascii_lowercase = ''abcdefghijklmnopqrstuvwxyz''"

definition char_lower :: "char \<Rightarrow> char" where
  "char_lower c = (case map_of (zip ascii_uppercase ascii_lowercase) c of
                     None \<Rightarrow> c | Some l \<Rightarrow> l)"

definition char_upper :: "char \<Rightarrow> char" where
  "char_upper c = (case map_of (zip ascii_lowercase ascii_uppercase) c of
                     None \<Rightarrow> c | Some u \<Rightarrow> u)"

text \<open>\<^verbatim>\<open>str.lower()\<close> and \<^verbatim>\<open>str.upper()\<close>.\<close>

definition py_lower :: "string \<Rightarrow> string" where
  "py_lower s = map char_lower s"

definition py_upper :: "string \<Rightarrow> string" where
  "py_upper s = map char_upper s"

text \<open>The ASCII characters for which \<^verbatim>\<open>str.isspace()\<close> holds:
  tab, line feed, vertical tab, form feed, carriage return, the four separators
  \<^verbatim>\<open>0x1c\<close> to \<^verbatim>\<open>0x1f\<close>, and the space.\<close>

definition py_isspace :: "char \<Rightarrow> bool" where
  "py_isspace c = (c \<in> set [CHR 0x09, CHR 0x0A, CHR 0x0B, CHR 0x0C, CHR 0x0D,
                             CHR 0x1C, CHR 0x1D, CHR 0x1E, CHR 0x1F, CHR '' ''])"

text \<open>\<^verbatim>\<open>str.strip()\<close> with no argument.\<close>

definition py_strip :: "string \<Rightarrow> string" where
  "py_strip s = rev (dropWhile py_isspace (rev (dropWhile py_isspace s)))"

text \<open>\<^verbatim>\<open>w in text\<close> on strings: \<open>w\<close> occurs as a contiguous substring.\<close>

fun starts_with :: "string \<Rightarrow> string \<Rightarrow> bool" where
  "starts_with [] t = True"
| "starts_with (c # w) [] = False"
| "starts_with (c # w) (d # t) = (c = d \<and> starts_with w t)"

fun py_in :: "string \<Rightarrow> string \<Rightarrow> bool" where
  "py_in w [] = (w = [])"
| "py_in w (c # t) = (starts_with w (c # t) \<or> py_in w t)"

text \<open>\<^verbatim>\<open>any(word in text for word in words)\<close>.\<close>

fun any_in :: "string list \<Rightarrow> string \<Rightarrow> bool" where
  "any_in [] text = False"
| "any_in (word # words) text = (py_in word text \<or> any_in words text)"

section \<open>The complaint classifier (\<^verbatim>\<open>refresh_311_data\<close>, lines 88 to 191)\<close>

text \<open>
  The four local strings of the loop body. The arguments are the record's
  \<^verbatim>\<open>complaint_type\<close> and \<^verbatim>\<open>descriptor\<close> fields after
  \<^verbatim>\<open>str(record.get(..., '') or '')\<close>, so a missing or null field is the empty string.
\<close>

definition complaint_type_of :: "string \<Rightarrow> string" where
  "complaint_type_of raw_type = py_strip raw_type"

definition complaint_lower_of :: "string \<Rightarrow> string" where
  "complaint_lower_of raw_type =
     (let complaint_type = complaint_type_of raw_type
      in if complaint_type \<noteq> [] then py_lower complaint_type else [])"

definition descriptor_of :: "string \<Rightarrow> string" where
  "descriptor_of raw_descriptor = py_lower raw_descriptor"

definition combined_text_of :: "string \<Rightarrow> string \<Rightarrow> string" where
  "combined_text_of raw_type raw_descriptor =
     py_lower (complaint_lower_of raw_type @ '' '' @ descriptor_of raw_descriptor)"

text \<open>The \<^verbatim>\<open>if\<close>/\<^verbatim>\<open>elif\<close> chain of lines 96 to 182, in the source's order.
  \<^verbatim>\<open>request_type\<close> starts as \<^verbatim>\<open>'other'\<close> and is overwritten by the first
  branch whose guard holds.\<close>

definition request_type_chain :: "string \<Rightarrow> string \<Rightarrow> string \<Rightarrow> string" where
  "request_type_chain complaint_lower descriptor combined_text =
    (if py_in ''unsanitary pigeon condition'' combined_text
        \<or> py_in ''unsanitary animal facility'' combined_text then ''unsanitary_condition''
     else if py_in ''air quality'' combined_text then ''air_quality''
     else if py_in ''unsanitary condition'' combined_text
        \<or> py_in ''dirty conditions'' combined_text then ''dirty_condition''
     else if py_in ''sewer'' combined_text \<or> py_in ''water quality'' combined_text
       then ''water_quality''
     else if py_in ''missed collection'' combined_text
        \<or> py_in ''missed collection (all materials)'' combined_text then ''missed_pickup''
     else if py_in ''hazardous materials'' combined_text \<or> py_in ''lead'' combined_text
       then ''hazardous_materials''
     else if py_in ''sweeping'' combined_text
        \<and> (py_in ''inadequate'' combined_text \<or> py_in ''missed'' combined_text)
       then ''sweeping''
     else if py_in ''mosquitoes'' combined_text then ''mosquitoes''
     else if py_in ''mold'' combined_text then ''mold''
     else if py_in ''snow'' combined_text then ''snow''
     else if py_in ''residential disposal complaint'' complaint_lower then
       (if any_in [''not secure'', ''not separated'', ''bin not used'', ''too early'',
                   ''too late'', ''left in front''] descriptor then ''trash_issue''
        else if py_in ''storage area'' descriptor then ''other''
        else ''trash_issue'')
     else if py_in ''dumpster complaint'' complaint_lower then
       (if py_in ''overflowing'' descriptor then ''overflow'' else ''trash_issue'')
     else if py_in ''dead animal'' complaint_lower then
       (if any_in [''rat'', ''mouse'', ''rodent''] descriptor then ''rodent'' else ''other'')
     else if py_in ''street sweeping complaint'' complaint_lower then ''sweeping''
     else if py_in ''sanitation worker'' complaint_lower
        \<or> py_in ''vehicle complaint'' complaint_lower then ''other''
     else if py_in ''derelict vehicle'' complaint_lower then ''other''
     else if py_in ''illegal posting'' complaint_lower then ''other''
     else if any_in [''illegal dumping'', ''dumping'', ''illegal dump'', ''dumped'',
                     ''chronic dumping''] combined_text then ''illegal_dumping''
     else if any_in [''missed collection'', ''missed pickup'', ''missed trash'',
                     ''collection missed'', ''pickup missed'', ''no pickup''] combined_text
       then ''missed_pickup''
     else if any_in [''overflow'', ''overflowing'', ''over flowing'', ''bin full'',
                     ''container full'', ''overflowing dumpster'', ''overflowing basket'']
               combined_text then ''overflow''
     else if any_in [''rodent'', ''rat'', ''rats'', ''mouse'', ''mice'', ''rodent activity'',
                     ''rodent sighting''] combined_text then ''rodent''
     else if any_in [''dirty condition'', ''sanitation condition'', ''unsanitary'',
                     ''dirty area'', ''filthy'', ''unsanitary condition''] combined_text
       then ''dirty_condition''
     else if any_in [''trash'', ''garbage'', ''refuse'', ''waste'', ''debris'', ''rubbish'',
                     ''solid waste'', ''not secure'', ''not separated''] combined_text
       then ''trash_issue''
     else if any_in [''litter basket'', ''litter'', ''basket'', ''litter bin'',
                     ''street basket'', ''replacement basket'', ''new basket''] combined_text
       then ''litter_basket''
     else if any_in [''damaged container'', ''broken container'', ''container damaged'',
                     ''damaged bin'', ''broken bin''] combined_text then ''damaged_container''
     else if any_in [''vendor'', ''enforcement'', ''street vendor'', ''vendor violation'',
                     ''food vendor'', ''non-food vendor''] combined_text
       then ''vendor_enforcement''
     else if any_in [''obstruction'', ''blocking'', ''blocked'', ''obstructing'',
                     ''access blocked''] combined_text then ''obstruction''
     else if any_in [''graffiti'', ''vandalism'', ''spray paint''] combined_text
       then ''graffiti''
     else if any_in [''street condition'', ''sidewalk''] combined_text
        \<and> any_in [''trash'', ''garbage'', ''debris'', ''litter''] combined_text
       then ''trash_issue''
     else ''other'')"

definition request_type :: "string \<Rightarrow> string \<Rightarrow> string" where
  "request_type raw_type raw_descriptor =
     request_type_chain (complaint_lower_of raw_type) (descriptor_of raw_descriptor)
       (combined_text_of raw_type raw_descriptor)"

text \<open>Lines 185 to 191: the priority of the request.\<close>

definition priority_chain :: "string \<Rightarrow> string \<Rightarrow> string \<Rightarrow> string" where
  "priority_chain rtype complaint_lower descriptor =
     (let priority = ''normal'';
          priority = (if rtype \<in> set [''illegal_dumping'', ''rodent'', ''overflow'',
                          ''hazardous_materials'', ''mold'', ''air_quality'', ''water_quality'']
                      then ''high'' else priority);
          priority = (if py_in ''urgent'' complaint_lower \<or> py_in ''emergency'' descriptor
                      then ''urgent'' else priority)
      in priority)"

definition priority :: "string \<Rightarrow> string \<Rightarrow> string" where
  "priority raw_type raw_descriptor =
     priority_chain (request_type raw_type raw_descriptor)
       (complaint_lower_of raw_type) (descriptor_of raw_descriptor)"

section \<open>Numbers and dates\<close>

text \<open>\<^verbatim>\<open>int(x)\<close> on a float truncates towards zero.\<close>

definition py_int :: "real \<Rightarrow> int" where
  "py_int x = (if 0 \<le> x then \<lfloor>x\<rfloor> else \<lceil>x\<rceil>)"

text \<open>\<^verbatim>\<open>round(x, ndigits)\<close>: the nearest multiple of \<open>10\<^sup>-\<^sup>n\<close>, ties to even.\<close>

definition round_half_even :: "real \<Rightarrow> int" where
  "round_half_even x =
     (let f = \<lfloor>x\<rfloor>; d = x - of_int f
      in if d < 1 / 2 then f else if 1 / 2 < d then f + 1
         else if even f then f else f + 1)"

definition py_round :: "real \<Rightarrow> nat \<Rightarrow> real" where
  "py_round x ndigits = of_int (round_half_even (x * 10 ^ ndigits)) / 10 ^ ndigits"

text \<open>\<^verbatim>\<open>xs[-k:]\<close> for \<open>k \<ge> 0\<close>: the last \<open>k\<close> elements, but the whole list
  when \<open>k = 0\<close> (since \<^verbatim>\<open>-0\<close> is \<^verbatim>\<open>0\<close>).\<close>

definition py_slice_last :: "nat \<Rightarrow> 'a list \<Rightarrow> 'a list" where
  "py_slice_last k xs = (if k = 0 then xs else drop (length xs - k) xs)"

text \<open>The date part of a \<^verbatim>\<open>datetime\<close>. The clock (\<^verbatim>\<open>datetime.utcnow()\<close>)
  is an argument of every operation that reads it.\<close>

record py_date =
  year :: int
  month :: nat
  day :: nat

section \<open>\<^verbatim>\<open>PredictionService.predict_hotspots\<close>\<close>







section \<open>\<^verbatim>\<open>PredictionService.predict_tonnage_forecast\<close>\<close>

record collection =
  waste_type :: "string option"
  tonnage :: "real option"








section \<open>\<^verbatim>\<open>PredictionService.predict_complaint_types\<close>\<close>










section \<open>\<^verbatim>\<open>PredictionService.predict_overflow_risk\<close>\<close>

record zone_overflow =
  zo_id :: string
  overflow_count :: int
  recent_overflow :: int

record risk_zone =
  rz_zone_id :: string
  rz_risk_score :: int
  overflow_count_90d :: int
  recent_overflow_7d :: int
  recent_collections_7d :: int
  risk_level :: string
  recommendation :: string

text \<open>Lines 438 to 440. All three scores are Python integers.\<close>

definition risk_score :: "int \<Rightarrow> int \<Rightarrow> int" where
  "risk_score overflow_count_v recent_collections =
     (let overflow_score = min 100 (overflow_count_v * 10);
          collection_score = max 0 (50 - (recent_collections * 5))
      in min 100 (overflow_score + collection_score))"

text \<open>Lines 442 to 450. \<^verbatim>\<open>round(risk_score, 1)\<close> of an integer is that integer.\<close>

definition risk_zone_of :: "(string \<Rightarrow> int) \<Rightarrow> zone_overflow \<Rightarrow> risk_zone" where
  "risk_zone_of count_collections zone_data =
     (let zone_id = zo_id zone_data;
          recent_collections = count_collections zone_id;
          score = risk_score (overflow_count zone_data) recent_collections
      in \<lparr> rz_zone_id = zone_id,
           rz_risk_score = score,
           overflow_count_90d = overflow_count zone_data,
           recent_overflow_7d = recent_overflow zone_data,
           recent_collections_7d = recent_collections,
           risk_level = (if score > 70 then ''high''
                         else if score > 40 then ''medium'' else ''low''),
           recommendation = (if score > 70 then ''Increase collection frequency''
                             else if score > 40 then ''Monitor closely''
                             else ''Normal operations'') \<rparr>)"

text \<open>\<^verbatim>\<open>count_collections\<close> stands for the store's
  \<^verbatim>\<open>db.collections.count_documents\<close> query of a zone.\<close>

definition predict_overflow_risk ::
  "(string \<Rightarrow> int) \<Rightarrow> zone_overflow list \<Rightarrow> risk_zone list" where
  "predict_overflow_risk count_collections overflow_data =
     sort_key (\<lambda>x. - rz_risk_score x) (map (risk_zone_of count_collections) overflow_data)"

section \<open>\<^verbatim>\<open>PredictionService.predict_borough_complaints\<close>\<close>

text \<open>One row of the aggregation: a borough, a day and the number of complaints.
  The date is \<open>None\<close> when \<^verbatim>\<open>datetime.strptime\<close> rejects the row's date
  string; such a row is skipped by the bare \<^verbatim>\<open>except\<close>.\<close>

record history_row =
  hr_borough :: string
  hr_date :: "py_date option"
  hr_count :: int

record borough_series =
  dates :: "py_date list"
  counts :: "int list"

text \<open>Lines 576 to 587: \<^verbatim>\<open>borough_data\<close>, a \<^verbatim>\<open>defaultdict\<close> in insertion order.\<close>

fun add_point ::
  "string \<Rightarrow> py_date \<Rightarrow> int \<Rightarrow> (string \<times> borough_series) list
     \<Rightarrow> (string \<times> borough_series) list" where
  "add_point b d c [] = [(b, \<lparr> dates = [d], counts = [c] \<rparr>)]"
| "add_point b d c ((k, v) # rest) =
     (if k = b then (k, \<lparr> dates = dates v @ [d], counts = counts v @ [c] \<rparr>) # rest
      else (k, v) # add_point b d c rest)"

definition borough_data_of :: "history_row list \<Rightarrow> (string \<times> borough_series) list" where
  "borough_data_of historical_data =
     foldl (\<lambda>borough_data r.
              case hr_date r of
                None \<Rightarrow> borough_data
              | Some date_obj \<Rightarrow> add_point (hr_borough r) date_obj (hr_count r) borough_data)
           [] historical_data"

subsection \<open>Trend estimate (lines 602 to 633)\<close>

definition recent_avg :: "int list \<Rightarrow> real" where
  "recent_avg cs =
     (let recent_days = 30;
          recent_counts = py_slice_last (min recent_days (length cs)) cs
      in if recent_counts \<noteq> []
         then real_of_int (sum_list recent_counts) / real (length recent_counts) else 0)"

definition overall_avg :: "int list \<Rightarrow> real" where
  "overall_avg cs =
     (if cs \<noteq> [] then real_of_int (sum_list cs) / real (length cs) else 0)"

definition trend_counts_of :: "int list \<Rightarrow> int list" where
  "trend_counts_of cs = (let trend_window = min 60 (length cs) in py_slice_last trend_window cs)"

definition slope_denominator :: "int list \<Rightarrow> int" where
  "slope_denominator trend_counts =
     (let n = int (length trend_counts);
          x_values = map int [0..<length trend_counts];
          sum_x = sum_list x_values;
          sum_x2 = sum_list (map (\<lambda>x. x * x) x_values)
      in n * sum_x2 - sum_x * sum_x)"

definition slope :: "int list \<Rightarrow> real" where
  "slope cs =
     (let trend_counts = trend_counts_of cs
      in if length trend_counts > 1 then
           let n = int (length trend_counts);
               x_values = map int [0..<length trend_counts];
               sum_x = sum_list x_values;
               sum_y = sum_list trend_counts;
               sum_xy = sum_list (map (\<lambda>(x, y). x * y) (zip x_values trend_counts));
               denominator = slope_denominator trend_counts
           in if denominator \<noteq> 0
              then real_of_int (n * sum_xy - sum_x * sum_y) / real_of_int denominator
              else 0
         else 0)"

subsection \<open>Prediction assembly (lines 651 to 672)\<close>

definition predicted_daily :: "real \<Rightarrow> real \<Rightarrow> int \<Rightarrow> real" where
  "predicted_daily recent_avg_v slope_v days_ahead =
     (let base_daily = recent_avg_v;
          trend_adjustment = slope_v * (real_of_int days_ahead / 2);
          max_negative_adjustment = - base_daily * 0.5;
          trend_adjustment = max max_negative_adjustment trend_adjustment;
          predicted = base_daily + trend_adjustment;
          min_daily = recent_avg_v * 0.1
      in max min_daily predicted)"

definition predicted_total :: "real \<Rightarrow> real \<Rightarrow> int \<Rightarrow> int" where
  "predicted_total recent_avg_v slope_v days_ahead =
     (let total = py_int (predicted_daily recent_avg_v slope_v days_ahead * real_of_int days_ahead)
      in max 0 total)"

subsection \<open>Confidence (lines 674 to 700)\<close>

definition variance :: "int list \<Rightarrow> real" where
  "variance cs =
     (if cs \<noteq> []
      then sum_list (map (\<lambda>c. (real_of_int c - overall_avg cs) ^ 2) cs) / real (length cs)
      else 0)"

text \<open>\<^verbatim>\<open>std_dev = variance ** 0.5\<close> is the square root: the variance is a mean
  of squares, never negative.\<close>

definition confidence :: "nat \<Rightarrow> real \<Rightarrow> real \<Rightarrow> real" where
  "confidence data_points variance_v overall_avg_v =
     (let std_dev = sqrt variance_v;
          base_confidence = (if data_points \<ge> 30 then 85
                             else if data_points \<ge> 14 then 70
                             else if data_points \<ge> 7 then 50
                             else 30);
          conf = base_confidence;
          conf = (if std_dev > 0 \<and> overall_avg_v > 0 then
                    let cv = std_dev / overall_avg_v
                    in if cv > 0.5 then conf * (1 - min 0.3 ((cv - 0.5) * 0.5)) else conf
                  else conf)
      in max 30 (min 95 conf))"

subsection \<open>One borough, and the whole operation\<close>

record borough_prediction =
  bp_borough :: string
  predicted_complaints :: int
  predicted_daily_avg :: real
  current_daily_avg :: real
  historical_daily_avg :: real
  bp_trend :: string
  trend_slope :: real
  percent_change :: real
  bp_confidence :: real
  bp_days_ahead :: int
  data_points :: nat
  prediction_date :: py_date

text \<open>The body of the loop of lines 591 to 729; \<open>None\<close> is a
  \<^verbatim>\<open>continue\<close>. The day-of-week averages of lines 635 to 649 are computed
  by the source and never read, so they are left out; so is the
  \<^verbatim>\<open>forecast_period\<close> string.\<close>

definition borough_prediction_of ::
  "py_date \<Rightarrow> int \<Rightarrow> string \<times> borough_series \<Rightarrow> borough_prediction option" where
  "borough_prediction_of current_date days_ahead entry =
     (let borough = fst entry; data = snd entry
      in if borough = [] \<or> py_upper borough = ''UNSPECIFIED'' then None
         else if length (counts data) < 3 then None
         else
           let cs = counts data;
               r_avg = recent_avg cs;
               o_avg = overall_avg cs;
               sl = slope cs;
               p_daily = predicted_daily r_avg sl days_ahead;
               p_total = predicted_total r_avg sl days_ahead;
               conf = confidence (length cs) (variance cs) o_avg;
               trend_direction = (if sl > 0.1 then ''increasing''
                                  else if sl < - 0.1 then ''decreasing'' else ''stable'');
               pct = (if o_avg > 0 then ((r_avg - o_avg) / o_avg) * 100 else 0)
           in Some \<lparr> bp_borough = borough,
                      predicted_complaints = p_total,
                      predicted_daily_avg = py_round p_daily 1,
                      current_daily_avg = py_round r_avg 1,
                      historical_daily_avg = py_round o_avg 1,
                      bp_trend = trend_direction,
                      trend_slope = py_round sl 2,
                      percent_change = py_round pct 1,
                      bp_confidence = py_round conf 1,
                      bp_days_ahead = days_ahead,
                      data_points = length cs,
                      prediction_date = current_date \<rparr>)"

record borough_forecast =
  bf_predictions :: "borough_prediction list"
  bf_count :: nat
  bf_days_ahead :: int
  forecast_date :: py_date

definition predict_borough_complaints ::
  "py_date \<Rightarrow> int \<Rightarrow> history_row list \<Rightarrow> borough_forecast" where
  "predict_borough_complaints current_date days_ahead historical_data =
     (let borough_data = borough_data_of historical_data;
          predictions = List.map_filter (borough_prediction_of current_date days_ahead) borough_data;
          predictions = sort_key (\<lambda>x. - predicted_complaints x) predictions
      in \<lparr> bf_predictions = predictions,
           bf_count = length predictions,
           bf_days_ahead = days_ahead,
           forecast_date = current_date \<rparr>)"

section \<open>Reference formulas, written from the specification's wording\<close>


text \<open>Section 4.5: the base confidence by sample count and the adjustment by the
  coefficient of variation \<open>cv = stddev / mean\<close>.\<close>

definition spec_base_confidence :: "nat \<Rightarrow> real" where
  "spec_base_confidence n =
     (if n \<ge> 30 then 85 else if 14 \<le> n \<and> n < 30 then 70
      else if 7 \<le> n \<and> n < 14 then 50 else 30)"

definition spec_confidence :: "nat \<Rightarrow> real \<Rightarrow> real \<Rightarrow> real" where
  "spec_confidence n v m =
     (let cv = sqrt v / m;
          adjusted = (if sqrt v > 0 \<and> m > 0 \<and> cv > 0.5
                      then spec_base_confidence n * (1 - min 0.3 ((cv - 0.5) * 0.5))
                      else spec_base_confidence n)
      in max 30 (min 95 adjusted))"

text \<open>Section 4.3: the arithmetic mean, the last \<open>k\<close> points of a series, and the
  ordinary least-squares slope of the points \<open>(i, ys ! i)\<close>, that is the
  covariance of index and value over the variance of the index.\<close>

definition mean :: "real list \<Rightarrow> real" where
  "mean xs = sum_list xs / real (length xs)"

definition last_points :: "nat \<Rightarrow> 'a list \<Rightarrow> 'a list" where
  "last_points k xs = drop (length xs - k) xs"

definition spec_ols_slope :: "real list \<Rightarrow> real" where
  "spec_ols_slope ys =
     (let n = length ys;
          xbar = mean (map real [0..<n]);
          ybar = mean ys;
          sxy = sum_list (map (\<lambda>i. (real i - xbar) * (ys ! i - ybar)) [0..<n]);
          sxx = sum_list (map (\<lambda>i. (real i - xbar) ^ 2) [0..<n])
      in if sxx = 0 then 0 else sxy / sxx)"

text \<open>The daily data points observed for a borough: the rows of the aggregation
  with that borough and a date that parses.\<close>

definition observed_points :: "string \<Rightarrow> history_row list \<Rightarrow> history_row list" where
  "observed_points b historical_data =
     filter (\<lambda>r. hr_borough r = b \<and> hr_date r \<noteq> None) historical_data"

definition series_of :: "history_row list \<Rightarrow> borough_series" where
  "series_of rs = \<lparr> dates = map (\<lambda>r. the (hr_date r)) rs, counts = map hr_count rs \<rparr>"

text \<open>Section 3: the fixed enumeration of complaint categories.\<close>

definition categories :: "string list" where
  "categories =
     [''illegal_dumping'', ''missed_pickup'', ''overflow'', ''rodent'', ''dirty_condition'',
      ''trash_issue'', ''litter_basket'', ''damaged_container'', ''vendor_enforcement'',
      ''obstruction'', ''graffiti'', ''unsanitary_condition'', ''air_quality'',
      ''water_quality'', ''hazardous_materials'', ''sweeping'', ''mosquitoes'', ''mold'',
      ''snow'', ''other'']"

text \<open>The keywords that can fire a rule: every keyword of a top-level guard of
  the chain. (The words tested only together with \<^verbatim>\<open>sweeping\<close>, or only inside an
  agency-code rule, cannot fire a rule alone and are not listed.)\<close>

definition all_keywords :: "string list" where
  "all_keywords =
     [''unsanitary pigeon condition'', ''unsanitary animal facility'', ''air quality'',
      ''unsanitary condition'', ''dirty conditions'', ''sewer'', ''water quality'',
      ''missed collection'', ''missed collection (all materials)'', ''hazardous materials'',
      ''lead'', ''sweeping'', ''mosquitoes'', ''mold'', ''snow'',
      ''residential disposal complaint'', ''dumpster complaint'', ''dead animal'',
      ''street sweeping complaint'', ''sanitation worker'', ''vehicle complaint'',
      ''derelict vehicle'', ''illegal posting'',
      ''illegal dumping'', ''dumping'', ''illegal dump'', ''dumped'', ''chronic dumping'',
      ''missed pickup'', ''missed trash'', ''collection missed'', ''pickup missed'',
      ''no pickup'',
      ''overflow'', ''overflowing'', ''over flowing'', ''bin full'', ''container full'',
      ''overflowing dumpster'', ''overflowing basket'',
      ''rodent'', ''rat'', ''rats'', ''mouse'', ''mice'', ''rodent activity'',
      ''rodent sighting'',
      ''dirty condition'', ''sanitation condition'', ''unsanitary'', ''dirty area'',
      ''filthy'',
      ''trash'', ''garbage'', ''refuse'', ''waste'', ''debris'', ''rubbish'', ''solid waste'',
      ''not secure'', ''not separated'',
      ''litter basket'', ''litter'', ''basket'', ''litter bin'', ''street basket'',
      ''replacement basket'', ''new basket'',
      ''damaged container'', ''broken container'', ''container damaged'', ''damaged bin'',
      ''broken bin'',
      ''vendor'', ''enforcement'', ''street vendor'', ''vendor violation'', ''food vendor'',
      ''non-food vendor'',
      ''obstruction'', ''blocking'', ''blocked'', ''obstructing'', ''access blocked'',
      ''graffiti'', ''vandalism'', ''spray paint'',
      ''street condition'', ''sidewalk'']"

text \<open>Section 9 reframes the chain as an ordered rule table. The three tiers of
  the source, each as one rule: the specific complaint types "found in real data"
  (lines 100 to 119), the agency-code rules on the complaint type (lines 121 to
  146) and the generic keyword rules (lines 148 to 182).\<close>

definition specific_type_rule :: "string \<Rightarrow> string option" where
  "specific_type_rule combined_text =
    (if py_in ''unsanitary pigeon condition'' combined_text
        \<or> py_in ''unsanitary animal facility'' combined_text then Some ''unsanitary_condition''
     else if py_in ''air quality'' combined_text then Some ''air_quality''
     else if py_in ''unsanitary condition'' combined_text
        \<or> py_in ''dirty conditions'' combined_text then Some ''dirty_condition''
     else if py_in ''sewer'' combined_text \<or> py_in ''water quality'' combined_text
       then Some ''water_quality''
     else if py_in ''missed collection'' combined_text
        \<or> py_in ''missed collection (all materials)'' combined_text then Some ''missed_pickup''
     else if py_in ''hazardous materials'' combined_text \<or> py_in ''lead'' combined_text
       then Some ''hazardous_materials''
     else if py_in ''sweeping'' combined_text
        \<and> (py_in ''inadequate'' combined_text \<or> py_in ''missed'' combined_text)
       then Some ''sweeping''
     else if py_in ''mosquitoes'' combined_text then Some ''mosquitoes''
     else if py_in ''mold'' combined_text then Some ''mold''
     else if py_in ''snow'' combined_text then Some ''snow''
     else None)"

definition agency_code_rule :: "string \<Rightarrow> string \<Rightarrow> string option" where
  "agency_code_rule complaint_lower descriptor =
    (if py_in ''residential disposal complaint'' complaint_lower then
       Some (if any_in [''not secure'', ''not separated'', ''bin not used'', ''too early'',
                        ''too late'', ''left in front''] descriptor then ''trash_issue''
             else if py_in ''storage area'' descriptor then ''other''
             else ''trash_issue'')
     else if py_in ''dumpster complaint'' complaint_lower then
       Some (if py_in ''overflowing'' descriptor then ''overflow'' else ''trash_issue'')
     else if py_in ''dead animal'' complaint_lower then
       Some (if any_in [''rat'', ''mouse'', ''rodent''] descriptor then ''rodent'' else ''other'')
     else if py_in ''street sweeping complaint'' complaint_lower then Some ''sweeping''
     else if py_in ''sanitation worker'' complaint_lower
        \<or> py_in ''vehicle complaint'' complaint_lower then Some ''other''
     else if py_in ''derelict vehicle'' complaint_lower then Some ''other''
     else if py_in ''illegal posting'' complaint_lower then Some ''other''
     else None)"

definition generic_keyword_rule :: "string \<Rightarrow> string option" where
  "generic_keyword_rule combined_text =
    (if any_in [''illegal dumping'', ''dumping'', ''illegal dump'', ''dumped'',
                ''chronic dumping''] combined_text then Some ''illegal_dumping''
     else if any_in [''missed collection'', ''missed pickup'', ''missed trash'',
                     ''collection missed'', ''pickup missed'', ''no pickup''] combined_text
       then Some ''missed_pickup''
     else if any_in [''overflow'', ''overflowing'', ''over flowing'', ''bin full'',
                     ''container full'', ''overflowing dumpster'', ''overflowing basket'']
               combined_text then Some ''overflow''
     else if any_in [''rodent'', ''rat'', ''rats'', ''mouse'', ''mice'', ''rodent activity'',
                     ''rodent sighting''] combined_text then Some ''rodent''
     else if any_in [''dirty condition'', ''sanitation condition'', ''unsanitary'',
                     ''dirty area'', ''filthy'', ''unsanitary condition''] combined_text
       then Some ''dirty_condition''
     else if any_in [''trash'', ''garbage'', ''refuse'', ''waste'', ''debris'', ''rubbish'',
                     ''solid waste'', ''not secure'', ''not separated''] combined_text
       then Some ''trash_issue''
     else if any_in [''litter basket'', ''litter'', ''basket'', ''litter bin'',
                     ''street basket'', ''replacement basket'', ''new basket''] combined_text
       then Some ''litter_basket''
     else if any_in [''damaged container'', ''broken container'', ''container damaged'',
                     ''damaged bin'', ''broken bin''] combined_text then Some ''damaged_container''
     else if any_in [''vendor'', ''enforcement'', ''street vendor'', ''vendor violation'',
                     ''food vendor'', ''non-food vendor''] combined_text
       then Some ''vendor_enforcement''
     else if any_in [''obstruction'', ''blocking'', ''blocked'', ''obstructing'',
                     ''access blocked''] combined_text then Some ''obstruction''
     else if any_in [''graffiti'', ''vandalism'', ''spray paint''] combined_text
       then Some ''graffiti''
     else if any_in [''street condition'', ''sidewalk''] combined_text
        \<and> any_in [''trash'', ''garbage'', ''debris'', ''litter''] combined_text
       then Some ''trash_issue''
     else None)"

definition tiered_request_type :: "string \<Rightarrow> string \<Rightarrow> string \<Rightarrow> string" where
  "tiered_request_type complaint_lower descriptor combined_text =
     (case specific_type_rule combined_text of
        Some c \<Rightarrow> c
      | None \<Rightarrow>
          (case agency_code_rule complaint_lower descriptor of
             Some c \<Rightarrow> c
           | None \<Rightarrow>
               (case generic_keyword_rule combined_text of
                  Some c \<Rightarrow> c
                | None \<Rightarrow> ''other'')))"

text \<open>Section 4.1: the high-severity categories.\<close>

definition high_severity :: "string list" where
  "high_severity = [''illegal_dumping'', ''rodent'', ''overflow'', ''hazardous_materials'',
                    ''mold'', ''air_quality'', ''water_quality'']"

section \<open>Example inputs\<close>

definition example_now :: py_date where
  "example_now = \<lparr> year = 2024, month = 1, day = 15 \<rparr>"

definition example_day1 :: py_date where
  "example_day1 = \<lparr> year = 2024, month = 1, day = 1 \<rparr>"

definition example_day2 :: py_date where
  "example_day2 = \<lparr> year = 2024, month = 1, day = 2 \<rparr>"

definition example_day3 :: py_date where
  "example_day3 = \<lparr> year = 2024, month = 1, day = 3 \<rparr>"

text \<open>Brooklyn has three daily points, Queens one, and three rows carry no borough
  name but \<^verbatim>\<open>Unspecified\<close>.\<close>

definition example_rows :: "history_row list" where
  "example_rows =
     [\<lparr> hr_borough = ''BROOKLYN'', hr_date = Some example_day1, hr_count = 10 \<rparr>,
      \<lparr> hr_borough = ''Unspecified'', hr_date = Some example_day1, hr_count = 4 \<rparr>,
      \<lparr> hr_borough = ''BROOKLYN'', hr_date = Some example_day2, hr_count = 10 \<rparr>,
      \<lparr> hr_borough = ''QUEENS'', hr_date = Some example_day2, hr_count = 7 \<rparr>,
      \<lparr> hr_borough = ''Unspecified'', hr_date = Some example_day2, hr_count = 4 \<rparr>,
      \<lparr> hr_borough = ''BROOKLYN'', hr_date = Some example_day3, hr_count = 10 \<rparr>,
      \<lparr> hr_borough = ''Unspecified'', hr_date = Some example_day3, hr_count = 4 \<rparr>]"




section \<open>Auxiliary facts\<close>

subsection \<open>Rounding\<close>




subsection \<open>Confidence\<close>

lemma clamp_30_95: "30 \<le> max 30 (min 95 c) \<and> max 30 (min 95 c) \<le> (95::real)"
  by simp

lemma confidence_bounds: "30 \<le> confidence n v m \<and> confidence n v m \<le> 95"
  unfolding confidence_def Let_def by (rule clamp_30_95)

lemma base_confidence_bands:
  "(if n \<ge> 30 then 85 else if n \<ge> 14 then 70 else if n \<ge> 7 then 50 else (30::real))
     = spec_base_confidence n"
  by (simp add: spec_base_confidence_def)

lemma nested_if_conj:
  "(if A \<and> B then (if C then x else y) else y) = (if A \<and> B \<and> C then x else (y::real))"
  by simp

lemma confidence_eq_spec: "confidence n v m = spec_confidence n v m"
  unfolding confidence_def spec_confidence_def Let_def base_confidence_bands nested_if_conj
  by (rule refl)

lemma sqrt_100: "sqrt 100 = 10"
proof -
  have "sqrt ((10::real)^2) = 10" by (simp del: power2_eq_square)
  then show ?thesis by simp
qed

subsection \<open>Trend estimate\<close>

lemma of_int_sum_list: "real_of_int (sum_list xs) = sum_list (map real_of_int xs)"
  by (induction xs) simp_all

lemma centered_product_sum:
  fixes a b :: "'i \<Rightarrow> real"
  shows "sum_list (map (\<lambda>i. (a i - c) * (b i - d)) xs) =
           sum_list (map (\<lambda>i. a i * b i) xs) - c * sum_list (map b xs)
             - d * sum_list (map a xs) + real (length xs) * c * d"
  by (induction xs) (simp_all add: algebra_simps)

lemma scaled_covariance:
  fixes y :: "nat \<Rightarrow> real"
  assumes "0 < n"
  shows "real n * sum_list (map (\<lambda>i. (real i - sum_list (map real [0..<n]) / real n)
                                    * (y i - sum_list (map y [0..<n]) / real n)) [0..<n])
         = real n * sum_list (map (\<lambda>i. real i * y i) [0..<n])
             - sum_list (map real [0..<n]) * sum_list (map y [0..<n])"
proof -
  define sx where "sx = sum_list (map real [0..<n])"
  define sy where "sy = sum_list (map y [0..<n])"
  define sxy where "sxy = sum_list (map (\<lambda>i. real i * y i) [0..<n])"
  have "sum_list (map (\<lambda>i. (real i - sx / real n) * (y i - sy / real n)) [0..<n])
          = sxy - (sx / real n) * sy - (sy / real n) * sx + real n * (sx / real n) * (sy / real n)"
    unfolding sx_def sy_def sxy_def by (simp add: centered_product_sum)
  also have "\<dots> = sxy - sx * sy / real n"
    using assms by (simp add: field_simps)
  finally have "real n * sum_list (map (\<lambda>i. (real i - sx / real n) * (y i - sy / real n)) [0..<n])
          = real n * (sxy - sx * sy / real n)"
    by simp
  also have "\<dots> = real n * sxy - sx * sy"
    using assms by (simp add: field_simps)
  finally show ?thesis unfolding sx_def sy_def sxy_def .
qed

lemma zip_indices:
  "map (\<lambda>(x, y). x * y) (zip (map int [0..<length tc]) tc) = map (\<lambda>i. int i * tc ! i) [0..<length tc]"
  by (rule nth_equalityI) simp_all

lemma py_slice_last_min:
  "0 < k \<Longrightarrow> py_slice_last (min k (length cs)) cs = last_points (min k (length cs)) cs"
  by (cases "cs = []") (auto simp add: py_slice_last_def last_points_def min_def)

lemma src_numerator:
  "real_of_int (int (length tc) * sum_list (map (\<lambda>(x, y). x * y) (zip (map int [0..<length tc]) tc))
       - sum_list (map int [0..<length tc]) * sum_list tc)
   = real (length tc) * sum_list (map (\<lambda>i. real i * (map real_of_int tc) ! i) [0..<length tc])
       - sum_list (map real [0..<length tc]) * sum_list (map ((!) (map real_of_int tc)) [0..<length tc])"
proof -
  have m: "map (\<lambda>i. real i * (map real_of_int tc) ! i) [0..<length tc]
        = map (\<lambda>i. real i * real_of_int (tc ! i)) [0..<length tc]"
    by (rule nth_equalityI) simp_all
  have a: "real_of_int (sum_list (map (\<lambda>(x, y). x * y) (zip (map int [0..<length tc]) tc)))
        = sum_list (map (\<lambda>i. real i * (map real_of_int tc) ! i) [0..<length tc])"
    unfolding m by (simp add: zip_indices of_int_sum_list comp_def)
  have b: "real_of_int (sum_list (map int [0..<length tc])) = sum_list (map real [0..<length tc])"
    by (simp add: of_int_sum_list comp_def)
  have "map ((!) (map real_of_int tc)) [0..<length tc] = map real_of_int tc"
    using map_nth [of "map real_of_int tc"] by simp
  then have c: "real_of_int (sum_list tc) = sum_list (map ((!) (map real_of_int tc)) [0..<length tc])"
    by (simp add: of_int_sum_list)
  show ?thesis using a b c by simp
qed

lemma src_denominator:
  "real_of_int (slope_denominator tc)
   = real (length tc) * sum_list (map (\<lambda>i. real i * real i) [0..<length tc])
       - sum_list (map real [0..<length tc]) * sum_list (map real [0..<length tc])"
  by (simp add: slope_denominator_def Let_def of_int_sum_list comp_def)

lemma sxx_as_product:
  "sum_list (map (\<lambda>i. (real i - c) ^ 2) xs) = sum_list (map (\<lambda>i. (real i - c) * (real i - c)) xs)"
  by (simp add: power2_eq_square)

lemma slope_is_ols:
  assumes "2 \<le> length tc"
  shows "(if slope_denominator tc \<noteq> 0
          then real_of_int (int (length tc)
                   * sum_list (map (\<lambda>(x, y). x * y) (zip (map int [0..<length tc]) tc))
                 - sum_list (map int [0..<length tc]) * sum_list tc)
               / real_of_int (slope_denominator tc)
          else 0) = spec_ols_slope (map real_of_int tc)"
proof -
  let ?n = "length tc"
  let ?ys = "map real_of_int tc"
  let ?xbar = "sum_list (map real [0..<?n]) / real ?n"
  let ?ybar = "sum_list (map ((!) ?ys) [0..<?n]) / real ?n"
  let ?sxy = "sum_list (map (\<lambda>i. (real i - ?xbar) * (?ys ! i - ?ybar)) [0..<?n])"
  let ?sxx = "sum_list (map (\<lambda>i. (real i - ?xbar) * (real i - ?xbar)) [0..<?n])"
  have n: "0 < ?n" using assms by linarith
  have num: "real_of_int (int ?n
                   * sum_list (map (\<lambda>(x, y). x * y) (zip (map int [0..<?n]) tc))
                 - sum_list (map int [0..<?n]) * sum_list tc) = real ?n * ?sxy"
    using scaled_covariance [OF n, of "(!) ?ys"] src_numerator [of tc] by simp
  have den: "real_of_int (slope_denominator tc) = real ?n * ?sxx"
    using scaled_covariance [OF n, of real] src_denominator [of tc] by simp
  have ybar: "mean ?ys = ?ybar"
    using map_nth [of ?ys] by (simp add: mean_def)
  have spec: "spec_ols_slope ?ys = (if ?sxx = 0 then 0 else ?sxy / ?sxx)"
    by (simp add: spec_ols_slope_def Let_def ybar sxx_as_product) (simp add: mean_def)
  show ?thesis
  proof (cases "?sxx = 0")
    case True
    then have "real_of_int (slope_denominator tc) = 0" using den by simp
    then have "slope_denominator tc = 0" by simp
    then show ?thesis using True spec by simp
  next
    case False
    then have "real ?n * ?sxx \<noteq> 0" using n by simp
    then have "real_of_int (slope_denominator tc) \<noteq> 0" unfolding den .
    then have nz: "slope_denominator tc \<noteq> 0" by simp
    have "real ?n * ?sxy / (real ?n * ?sxx) = ?sxy / ?sxx" using n by simp
    then show ?thesis unfolding spec num den using nz False by simp
  qed
qed

lemma sum_indices_closed: "2 * sum_list (map int [0..<n]) = int n * (int n - 1)"
  by (induction n) (simp_all add: algebra_simps)

lemma sum_squares_closed:
  "6 * sum_list (map (\<lambda>x. x * x) (map int [0..<n])) = (int n - 1) * int n * (2 * int n - 1)"
  by (induction n) (simp_all add: algebra_simps)

lemma slope_denominator_closed:
  "12 * slope_denominator tc
     = int (length tc) * int (length tc) * (int (length tc) - 1) * (int (length tc) + 1)"
proof -
  define n where "n = int (length tc)"
  define sx where "sx = sum_list (map int [0..<length tc])"
  define sx2 where "sx2 = sum_list (map (\<lambda>x. x * x) (map int [0..<length tc]))"
  have a: "2 * sx = n * (n - 1)" unfolding sx_def n_def by (rule sum_indices_closed)
  have b: "6 * sx2 = (n - 1) * n * (2 * n - 1)" unfolding sx2_def n_def by (rule sum_squares_closed)
  have "12 * (n * sx2 - sx * sx) = 2 * n * (6 * sx2) - 3 * ((2 * sx) * (2 * sx))"
    by (simp add: algebra_simps)
  also have "\<dots> = n * n * (n - 1) * (n + 1)"
    unfolding a b by (simp add: algebra_simps)
  finally show ?thesis
    unfolding n_def sx_def sx2_def by (simp add: slope_denominator_def Let_def)
qed

lemma slope_denominator_pos:
  assumes "2 \<le> length tc"
  shows "0 < slope_denominator tc"
proof -
  have "0 < int (length tc) * int (length tc) * (int (length tc) - 1) * (int (length tc) + 1)"
    using assms by (intro mult_pos_pos) auto
  then show ?thesis using slope_denominator_closed [of tc] by linarith
qed

lemma length_last_points: "length (last_points (min k (length cs)) cs) = min k (length cs)"
  by (simp add: last_points_def)

lemma mean_of_ints: "mean (map real_of_int xs) = real_of_int (sum_list xs) / real (length xs)"
  by (simp add: mean_def of_int_sum_list)

lemma slope_unfold:
  "slope cs =
     (let tc = last_points (min 60 (length cs)) cs
      in if length tc > 1 then
           if slope_denominator tc \<noteq> 0
           then real_of_int (int (length tc)
                   * sum_list (map (\<lambda>(x, y). x * y) (zip (map int [0..<length tc]) tc))
                 - sum_list (map int [0..<length tc]) * sum_list tc)
               / real_of_int (slope_denominator tc)
           else 0
         else 0)"
  by (simp add: slope_def trend_counts_of_def Let_def py_slice_last_min)

lemma upt_3: "[0..<3] = [0, 1, 2]"
  by (simp add: upt_rec)

lemma example_trend:
  "recent_avg [1, 2, 4] = 7 / 3" "overall_avg [1, 2, 4] = 7 / 3" "slope [1, 2, 4] = 3 / 2"
  "slope [5] = 0"
  by (simp_all add: recent_avg_def overall_avg_def slope_def trend_counts_of_def
      slope_denominator_def Let_def py_slice_last_def upt_3)

lemma example_ols: "spec_ols_slope [1, 2, 4] = 3 / 2"
  by (simp add: spec_ols_slope_def mean_def Let_def upt_3 power2_eq_square)

subsection \<open>Grouping by borough\<close>

lemma map_of_add_point:
  "map_of (add_point b d c bd) =
     (map_of bd)(b \<mapsto> (case map_of bd b of
                          None \<Rightarrow> \<lparr> dates = [d], counts = [c] \<rparr>
                        | Some v \<Rightarrow> \<lparr> dates = dates v @ [d], counts = counts v @ [c] \<rparr>))"
  by (induction bd) (auto simp add: fun_eq_iff)

lemma keys_add_point: "fst ` set (add_point b d c bd) = insert b (fst ` set bd)"
proof -
  have "dom (map_of (add_point b d c bd)) = insert b (dom (map_of bd))"
    by (simp add: map_of_add_point)
  then show ?thesis by (simp add: dom_map_of_conv_image_fst)
qed

lemma distinct_add_point:
  "distinct (map fst bd) \<Longrightarrow> distinct (map fst (add_point b d c bd))"
  by (induction bd) (auto simp add: keys_add_point)

lemma borough_data_of_Nil: "borough_data_of [] = []"
  by (simp add: borough_data_of_def)

lemma borough_data_of_snoc:
  "borough_data_of (rs @ [r]) =
     (case hr_date r of None \<Rightarrow> borough_data_of rs
      | Some date_obj \<Rightarrow> add_point (hr_borough r) date_obj (hr_count r) (borough_data_of rs))"
  by (cases "hr_date r") (simp_all add: borough_data_of_def)

lemma distinct_borough_data: "distinct (map fst (borough_data_of rs))"
  by (induction rs rule: rev_induct)
     (auto simp add: borough_data_of_Nil borough_data_of_snoc distinct_add_point split: option.splits)

lemma map_of_borough_data:
  "map_of (borough_data_of rs) b =
     (if observed_points b rs = [] then None else Some (series_of (observed_points b rs)))"
proof (induction rs rule: rev_induct)
  case Nil
  then show ?case by (simp add: borough_data_of_Nil observed_points_def)
next
  case (snoc r rs)
  show ?case
  proof (cases "hr_date r")
    case None
    then show ?thesis using snoc by (simp add: borough_data_of_snoc observed_points_def)
  next
    case (Some date_obj)
    then show ?thesis using snoc
      by (auto simp add: borough_data_of_snoc map_of_add_point observed_points_def series_of_def)
  qed
qed

lemma borough_data_entry:
  "(b, s) \<in> set (borough_data_of rs) \<longleftrightarrow> observed_points b rs \<noteq> [] \<and> s = series_of (observed_points b rs)"
proof -
  have "(b, s) \<in> set (borough_data_of rs) \<longleftrightarrow> map_of (borough_data_of rs) b = Some s"
    using distinct_borough_data by (simp add: map_of_eq_Some_iff)
  then show ?thesis by (auto simp add: map_of_borough_data)
qed

lemma borough_prediction_of_Some:
  assumes "borough_prediction_of now H e = Some p"
  shows "bp_borough p = fst e \<and> fst e \<noteq> [] \<and> py_upper (fst e) \<noteq> ''UNSPECIFIED''
       \<and> 3 \<le> length (counts (snd e)) \<and> data_points p = length (counts (snd e))
       \<and> bp_confidence p = py_round (confidence (length (counts (snd e)))
            (variance (counts (snd e))) (overall_avg (counts (snd e)))) 1
       \<and> predicted_complaints p = predicted_total (recent_avg (counts (snd e))) (slope (counts (snd e))) H"
  using assms by (auto simp add: borough_prediction_of_def Let_def split: if_splits)

lemma borough_prediction_of_None:
  "borough_prediction_of now H e = None \<longleftrightarrow>
     fst e = [] \<or> py_upper (fst e) = ''UNSPECIFIED'' \<or> length (counts (snd e)) < 3"
  by (auto simp add: borough_prediction_of_def Let_def)

lemma set_map_filter_conv:
  "set (List.map_filter f xs) = {y. \<exists>x \<in> set xs. f x = Some y}"
  by (induction xs) (auto split: option.splits)

lemma set_bf_predictions:
  "set (bf_predictions (predict_borough_complaints now H rs)) =
     {p. \<exists>e \<in> set (borough_data_of rs). borough_prediction_of now H e = Some p}"
  by (auto simp add: predict_borough_complaints_def Let_def set_map_filter_conv)

lemma reported_boroughs:
  "bp_borough ` set (bf_predictions (predict_borough_complaints now H rs)) =
     {b. b \<noteq> [] \<and> py_upper b \<noteq> ''UNSPECIFIED'' \<and> 3 \<le> length (observed_points b rs)}"
proof (intro set_eqI iffI)
  fix b assume "b \<in> bp_borough ` set (bf_predictions (predict_borough_complaints now H rs))"
  then obtain p e where e: "e \<in> set (borough_data_of rs)"
    and p: "borough_prediction_of now H e = Some p" and b: "b = bp_borough p"
    by (auto simp add: set_bf_predictions)
  from e have "snd e = series_of (observed_points (fst e) rs)"
    using borough_data_entry [of "fst e" "snd e" rs] by simp
  then have "length (counts (snd e)) = length (observed_points (fst e) rs)"
    by (simp add: series_of_def)
  with borough_prediction_of_Some [OF p] b
  show "b \<in> {b. b \<noteq> [] \<and> py_upper b \<noteq> ''UNSPECIFIED'' \<and> 3 \<le> length (observed_points b rs)}"
    by simp
next
  fix b assume "b \<in> {b. b \<noteq> [] \<and> py_upper b \<noteq> ''UNSPECIFIED'' \<and> 3 \<le> length (observed_points b rs)}"
  then have ok: "b \<noteq> []" "py_upper b \<noteq> ''UNSPECIFIED''" "3 \<le> length (observed_points b rs)"
    by simp_all
  let ?e = "(b, series_of (observed_points b rs))"
  from ok(3) have "observed_points b rs \<noteq> []" by auto
  then have e: "?e \<in> set (borough_data_of rs)" by (simp add: borough_data_entry)
  have "borough_prediction_of now H ?e \<noteq> None"
    using ok by (simp add: borough_prediction_of_None series_of_def)
  then obtain p where p: "borough_prediction_of now H ?e = Some p" by auto
  then have "bp_borough p = b" using borough_prediction_of_Some [OF p] by simp
  moreover have "p \<in> set (bf_predictions (predict_borough_complaints now H rs))"
    using e p by (auto simp add: set_bf_predictions)
  ultimately show "b \<in> bp_borough ` set (bf_predictions (predict_borough_complaints now H rs))"
    by auto
qed

lemma reported_data_points:
  assumes "p \<in> set (bf_predictions (predict_borough_complaints now H rs))"
  shows "data_points p = length (observed_points (bp_borough p) rs)"
proof -
  from assms obtain e where e: "e \<in> set (borough_data_of rs)"
    and p: "borough_prediction_of now H e = Some p"
    by (auto simp add: set_bf_predictions)
  from e have "snd e = series_of (observed_points (fst e) rs)"
    using borough_data_entry [of "fst e" "snd e" rs] by simp
  then have "length (counts (snd e)) = length (observed_points (fst e) rs)"
    by (simp add: series_of_def)
  with borough_prediction_of_Some [OF p] show ?thesis by simp
qed

lemma map_filter_keys:
  "map bp_borough (List.map_filter (borough_prediction_of now H) bd) =
     map fst (filter (\<lambda>e. borough_prediction_of now H e \<noteq> None) bd)"
proof (induction bd)
  case Nil
  then show ?case by simp
next
  case (Cons e bd)
  then show ?case
    by (cases "borough_prediction_of now H e") (auto dest: borough_prediction_of_Some)
qed

lemma distinct_map_insort_key:
  "distinct (map h (insort_key f x xs)) \<longleftrightarrow> h x \<notin> h ` set xs \<and> distinct (map h xs)"
  by (induction xs) (auto simp add: set_insort_key)

lemma distinct_map_sort_key: "distinct (map h (sort_key f xs)) \<longleftrightarrow> distinct (map h xs)"
  by (induction xs) (simp_all add: distinct_map_insort_key)

lemma distinct_reported:
  "distinct (map bp_borough (bf_predictions (predict_borough_complaints now H rs)))"
proof -
  have "distinct (map fst (filter (\<lambda>e. borough_prediction_of now H e \<noteq> None) (borough_data_of rs)))"
    using distinct_borough_data by (rule distinct_map_filter)
  then show ?thesis
    by (simp add: predict_borough_complaints_def Let_def distinct_map_sort_key map_filter_keys)
qed





subsection \<open>The operations on the example inputs\<close>

lemma example_borough_data:
  "borough_data_of example_rows =
     [(''BROOKLYN'', \<lparr> dates = [example_day1, example_day2, example_day3],
                       counts = [10, 10, 10] \<rparr>),
      (''Unspecified'', \<lparr> dates = [example_day1, example_day2, example_day3],
                          counts = [4, 4, 4] \<rparr>),
      (''QUEENS'', \<lparr> dates = [example_day2], counts = [7] \<rparr>)]"
  by (simp add: borough_data_of_def example_rows_def)

lemma example_upper:
  "py_upper ''Unspecified'' = ''UNSPECIFIED''"
  "py_upper ''BROOKLYN'' = ''BROOKLYN''"
  "py_upper ''QUEENS'' = ''QUEENS''"
  by (simp_all add: py_upper_def char_upper_def ascii_uppercase_def ascii_lowercase_def)

lemma example_flat_series:
  "recent_avg [10, 10, 10] = 10" "overall_avg [10, 10, 10] = 10" "slope [10, 10, 10] = 0"
  by (simp_all add: recent_avg_def overall_avg_def slope_def trend_counts_of_def
      slope_denominator_def Let_def py_slice_last_def upt_3)

lemma example_flat_variance: "variance [10, 10, 10] = 0"
  by (simp add: variance_def example_flat_series)

lemma example_flat_confidence: "confidence (Suc (Suc (Suc 0))) 0 10 = 30"
  by (simp add: confidence_def Let_def)

lemma example_flat_total: "predicted_daily 10 0 10 = 10 \<and> predicted_total 10 0 10 = 100"
  by (simp add: predicted_daily_def predicted_total_def Let_def py_int_def)

lemma example_brooklyn:
  "borough_prediction_of now 10
     (''BROOKLYN'', \<lparr> dates = [example_day1, example_day2, example_day3],
                      counts = [10, 10, 10] \<rparr>)
   = Some \<lparr> bp_borough = ''BROOKLYN'', predicted_complaints = 100, predicted_daily_avg = 10,
             current_daily_avg = 10, historical_daily_avg = 10, bp_trend = ''stable'',
             trend_slope = 0, percent_change = 0, bp_confidence = 30, bp_days_ahead = 10,
             data_points = 3, prediction_date = now \<rparr>"
  by (simp add: borough_prediction_of_def Let_def example_upper example_flat_series
      example_flat_variance example_flat_confidence example_flat_total py_round_def
      round_half_even_def)

lemma example_unspecified:
  "borough_prediction_of now 10
     (''Unspecified'', \<lparr> dates = [example_day1, example_day2, example_day3],
                         counts = [4, 4, 4] \<rparr>) = None"
  by (simp add: borough_prediction_of_def Let_def example_upper)

lemma example_queens:
  "borough_prediction_of now 10 (''QUEENS'', \<lparr> dates = [example_day2], counts = [7] \<rparr>) = None"
  by (simp add: borough_prediction_of_def Let_def example_upper)

lemma example_borough_forecast:
  "predict_borough_complaints now 10 example_rows =
     \<lparr> bf_predictions =
         [\<lparr> bp_borough = ''BROOKLYN'', predicted_complaints = 100, predicted_daily_avg = 10,
            current_daily_avg = 10, historical_daily_avg = 10, bp_trend = ''stable'',
            trend_slope = 0, percent_change = 0, bp_confidence = 30, bp_days_ahead = 10,
            data_points = 3, prediction_date = now \<rparr>],
       bf_count = 1, bf_days_ahead = 10, forecast_date = now \<rparr>"
  by (simp add: predict_borough_complaints_def Let_def example_borough_data
      example_brooklyn example_unspecified example_queens)

lemma example_observed:
  "length (observed_points ''BROOKLYN'' example_rows) = 3"
  "length (observed_points ''QUEENS'' example_rows) = 1"
  "length (observed_points ''Unspecified'' example_rows) = 3"
  by (simp_all add: observed_points_def example_rows_def)




subsection \<open>Strings\<close>

lemma starts_with_prefix: "starts_with w t = prefix w t"
  by (induction w t rule: starts_with.induct) simp_all

lemma py_in_sublist: "py_in w t = sublist w t"
  by (induction t) (simp_all add: starts_with_prefix sublist_Cons_right)

lemma py_in_set: "py_in w t \<Longrightarrow> set w \<subseteq> set t"
  by (simp add: py_in_sublist set_mono_sublist)

lemma py_in_append_left: "py_in w a \<Longrightarrow> py_in w (a @ b)"
  unfolding py_in_sublist by (metis sublist_order.order_trans sublist_append_rightI)

lemma py_in_append_right: "py_in w b \<Longrightarrow> py_in w (a @ b)"
  unfolding py_in_sublist by (metis sublist_order.order_trans sublist_append_leftI)

lemma char_lower_idem: "char_lower (char_lower c) = char_lower c"
  by (simp add: char_lower_def ascii_uppercase_def ascii_lowercase_def)

lemma py_lower_idem: "py_lower (py_lower s) = py_lower s"
  by (simp add: py_lower_def char_lower_idem)

lemma py_lower_append: "py_lower (a @ b) = py_lower a @ py_lower b"
  by (simp add: py_lower_def)

lemma complaint_lower_of_alt: "complaint_lower_of ct = py_lower (py_strip ct)"
  by (simp add: complaint_lower_of_def complaint_type_of_def Let_def py_lower_def)

lemma combined_text_of_alt:
  "combined_text_of ct d = complaint_lower_of ct @ '' '' @ descriptor_of d"
proof -
  have sp: "char_lower CHR '' '' = CHR '' ''"
    by (simp add: char_lower_def ascii_uppercase_def ascii_lowercase_def)
  have "py_lower (py_lower (py_strip ct) @ '' '' @ py_lower d)
          = py_lower (py_lower (py_strip ct)) @ '' '' @ py_lower (py_lower d)"
    by (simp add: py_lower_def sp)
  then show ?thesis
    by (simp add: combined_text_of_def complaint_lower_of_alt descriptor_of_def py_lower_idem)
qed

lemma in_type_in_text: "py_in w (complaint_lower_of ct) \<Longrightarrow> py_in w (combined_text_of ct d)"
  unfolding combined_text_of_alt by (rule py_in_append_left)

lemma in_descriptor_in_text: "py_in w (descriptor_of d) \<Longrightarrow> py_in w (combined_text_of ct d)"
  unfolding combined_text_of_alt by (intro py_in_append_right)

lemma any_in_iff: "any_in ws t \<longleftrightarrow> (\<exists>w \<in> set ws. py_in w t)"
  by (induction ws) auto

lemma space_not_upper: "py_isspace c \<Longrightarrow> c \<notin> set ascii_uppercase"
  by (auto simp add: py_isspace_def ascii_uppercase_def)

lemma char_lower_other: "c \<notin> set ascii_uppercase \<Longrightarrow> char_lower c = c"
proof -
  assume "c \<notin> set ascii_uppercase"
  moreover have "length ascii_uppercase = length ascii_lowercase"
    by (simp add: ascii_uppercase_def ascii_lowercase_def)
  ultimately have "map_of (zip ascii_uppercase ascii_lowercase) c = None"
    by (simp add: map_of_zip_is_None)
  then show ?thesis by (simp add: char_lower_def)
qed

lemma char_lower_space: "py_isspace c \<Longrightarrow> char_lower c = c"
  by (simp add: space_not_upper char_lower_other)

lemma py_lower_blank: "\<forall>c \<in> set s. py_isspace c \<Longrightarrow> py_lower s = s"
  by (induction s) (simp_all add: py_lower_def char_lower_space)

lemma py_strip_blank: "\<forall>c \<in> set s. py_isspace c \<Longrightarrow> py_strip s = []"
proof -
  assume "\<forall>c \<in> set s. py_isspace c"
  then have d: "dropWhile py_isspace s = []" using dropWhile_eq_Nil_conv by blast
  show ?thesis unfolding py_strip_def d by simp
qed

subsection \<open>The classifier\<close>

lemma if_mem: "a \<in> S \<Longrightarrow> b \<in> S \<Longrightarrow> (if c then a else b) \<in> S"
  by simp

lemma request_type_in_categories: "request_type_chain cl dl T \<in> set categories"
  unfolding request_type_chain_def by (intro if_mem) (simp_all add: categories_def)

lemma no_keyword_other:
  assumes "\<forall>w \<in> set all_keywords. \<not> py_in w T"
    and "\<forall>w \<in> set all_keywords. \<not> py_in w cl"
    and "\<forall>w \<in> set all_keywords. \<not> py_in w dl"
  shows "request_type_chain cl dl T = ''other''"
proof -
  have a: "\<And>w. w \<in> set all_keywords \<Longrightarrow> py_in w T = False"
    and b: "\<And>w. w \<in> set all_keywords \<Longrightarrow> py_in w cl = False"
    and c: "\<And>w. w \<in> set all_keywords \<Longrightarrow> py_in w dl = False"
    using assms by simp_all
  show ?thesis
    unfolding request_type_chain_def
    by (simp add: a b c all_keywords_def)
qed

lemma keywords_visible: "\<forall>w \<in> set all_keywords. w \<noteq> [] \<and> \<not> py_isspace (hd w)"
  by (simp add: all_keywords_def py_isspace_def)

lemma blank_text_no_keyword:
  assumes "\<forall>c \<in> set t. py_isspace c" and "w \<in> set all_keywords"
  shows "\<not> py_in w t"
proof
  assume "py_in w t"
  then have "set w \<subseteq> set t" by (rule py_in_set)
  moreover have "w \<noteq> []" and "\<not> py_isspace (hd w)"
    using keywords_visible assms(2) by auto
  ultimately show False using assms(1) by (cases w) auto
qed

lemma case_if_Some:
  "(case (if c then Some a else r) of Some x \<Rightarrow> x | None \<Rightarrow> e)
     = (if c then a else (case r of Some x \<Rightarrow> x | None \<Rightarrow> e))"
  by simp

lemma case_None_default: "(case None of Some x \<Rightarrow> x | None \<Rightarrow> e) = e"
  by simp

lemma chain_is_tiered:
  "request_type_chain cl dl T = tiered_request_type cl dl T"
  unfolding request_type_chain_def tiered_request_type_def specific_type_rule_def
    agency_code_rule_def generic_keyword_rule_def case_if_Some case_None_default
  by (rule refl)

lemmas text_defs = complaint_type_of_def complaint_lower_of_def descriptor_of_def combined_text_of_def
  py_lower_def py_strip_def py_isspace_def char_lower_def ascii_uppercase_def ascii_lowercase_def

lemma example_noise_text: "combined_text_of ''Noise'' ''Loud music'' = ''noise loud music''"
  by (simp add: text_defs)

lemma example_noise_no_keyword:
  "\<forall>w \<in> set all_keywords. \<not> py_in w ''noise loud music''"
  by (simp add: all_keywords_def)

lemma example_blank: "(\<forall>c \<in> set ''  ''. py_isspace c) \<and> (\<forall>c \<in> set [CHR '' '', CHR 0x09]. py_isspace c)"
  by (simp add: py_isspace_def)

lemma example_storage_area:
  "request_type ''Residential Disposal Complaint'' ''Storage Area issue'' = ''other''"
  by (simp add: request_type_def request_type_chain_def text_defs)

lemma example_overflowing_dumpster:
  "request_type [] ''overflowing dumpster'' = ''overflow''"
  by (simp add: request_type_def request_type_chain_def text_defs)

lemma example_dumpster_dumping:
  "request_type ''Dumpster Complaint'' ''Illegal dumping of trash'' = ''trash_issue''"
  by (simp add: request_type_def request_type_chain_def text_defs)

lemma example_dumpster_snow:
  "request_type ''Dumpster Complaint'' ''Overflowing, covered in snow'' = ''snow''"
  by (simp add: request_type_def request_type_chain_def text_defs)

lemma example_dumpster_snow_agency:
  "agency_code_rule (complaint_lower_of ''Dumpster Complaint'')
      (descriptor_of ''Overflowing, covered in snow'') = Some ''overflow''"
  by (simp add: agency_code_rule_def text_defs)

lemma example_urgent_descriptor:
  "py_in ''urgent'' (combined_text_of ''Noise'' ''Urgent: loud music'')"
  "priority ''Noise'' ''Urgent: loud music'' = ''normal''"
  by (simp_all add: priority_def priority_chain_def request_type_def request_type_chain_def
      text_defs)

lemma example_emergency_type:
  "py_in ''emergency'' (combined_text_of ''Emergency Response'' ''overflowing bin'')"
  "priority ''Emergency Response'' ''overflowing bin'' = ''high''"
  by (simp_all add: priority_def priority_chain_def request_type_def request_type_chain_def
      text_defs)

subsection \<open>Seasonal factors\<close>












lemma no_rule_other:
  assumes "specific_type_rule T = None" and "agency_code_rule cl dl = None"
    and "generic_keyword_rule T = None"
  shows "request_type_chain cl dl T = ''other''"
  using assms by (simp add: chain_is_tiered tiered_request_type_def)

lemma example_noise_rules:
  "specific_type_rule ''noise loud music'' = None"
  "agency_code_rule (complaint_lower_of ''Noise'') (descriptor_of ''Loud music'') = None"
  "generic_keyword_rule ''noise loud music'' = None"
  by (simp_all add: specific_type_rule_def agency_code_rule_def generic_keyword_rule_def
      text_defs)



section \<open>Verified properties\<close>

subsection \<open>Prediction assembly\<close>



subsection \<open>Overflow risk\<close>

text \<open>
  Claim C3. For a zone with a non-negative 90-day overflow count and a non-negative
  7-day collection count, the risk score of its entry is
  \<open>min(100, min(100, overflow*10) + max(0, 50 - collections*5))\<close> and lies in
  \<open>[0, 100]\<close>; the level is high above 70, medium above 40 and low otherwise; the
  recommendation is a fixed string per level; the inputs (0, 10) score 0 and the
  inputs (15, 0) score 100.
\<close>

theorem overflow_risk_score:
  assumes "0 \<le> oc" and "0 \<le> cc (zo_id zd)" and "overflow_count zd = oc"
  shows "rz_risk_score (risk_zone_of cc zd)
           = min 100 (min 100 (oc * 10) + max 0 (50 - cc (zo_id zd) * 5))
       \<and> 0 \<le> rz_risk_score (risk_zone_of cc zd)
       \<and> rz_risk_score (risk_zone_of cc zd) \<le> 100
       \<and> risk_level (risk_zone_of cc zd)
           = (if rz_risk_score (risk_zone_of cc zd) > 70 then ''high''
              else if rz_risk_score (risk_zone_of cc zd) > 40 then ''medium'' else ''low'')
       \<and> recommendation (risk_zone_of cc zd)
           = (if risk_level (risk_zone_of cc zd) = ''high'' then ''Increase collection frequency''
              else if risk_level (risk_zone_of cc zd) = ''medium'' then ''Monitor closely''
              else ''Normal operations'')
       \<and> risk_score 0 10 = 0 \<and> risk_score 15 0 = 100"
  using assms by (auto simp add: risk_zone_of_def risk_score_def Let_def min_def max_def)

theorem overflow_risk_score_witness:
  "rz_risk_score (risk_zone_of (\<lambda>z. 0)
      \<lparr> zo_id = ''BK-AGG'', overflow_count = 15, recent_overflow = 2 \<rparr>) = 100
   \<and> risk_level (risk_zone_of (\<lambda>z. 0)
      \<lparr> zo_id = ''BK-AGG'', overflow_count = 15, recent_overflow = 2 \<rparr>) = ''high''
   \<and> rz_risk_score (risk_zone_of (\<lambda>z. 10)
      \<lparr> zo_id = ''QN-AGG'', overflow_count = 0, recent_overflow = 0 \<rparr>) = 0
   \<and> risk_level (risk_zone_of (\<lambda>z. 10)
      \<lparr> zo_id = ''QN-AGG'', overflow_count = 0, recent_overflow = 0 \<rparr>) = ''low''"
  using overflow_risk_score [of 15 "\<lambda>z. 0"
          "\<lparr> zo_id = ''BK-AGG'', overflow_count = 15, recent_overflow = 2 \<rparr>"]
        overflow_risk_score [of 0 "\<lambda>z. 10"
          "\<lparr> zo_id = ''QN-AGG'', overflow_count = 0, recent_overflow = 0 \<rparr>"]
  by simp

subsection \<open>Confidence of the predictions\<close>




text \<open>
  Claim C4. For every sample count \<open>n\<close>, variance \<open>v \<ge> 0\<close> and mean \<open>m\<close>, the
  confidence of the borough forecast is the base value of the sample-count band
  (85, 70, 50 or 30), multiplied by \<open>1 - min(0.3, (cv - 0.5) * 0.5)\<close> when
  \<open>cv = sqrt v / m\<close> exceeds 0.5 with \<open>sqrt v > 0\<close> and \<open>m > 0\<close>, and clamped
  to \<open>[30, 95]\<close>.
\<close>

theorem forecast_confidence_formula:
  "0 \<le> v \<Longrightarrow> confidence n v m = spec_confidence n v m
      \<and> 30 \<le> confidence n v m \<and> confidence n v m \<le> 95"
  using confidence_bounds confidence_eq_spec by simp

theorem forecast_confidence_formula_witness:
  "(0::real) \<le> 100 \<and> confidence 10 100 10 = 37.5 \<and> spec_confidence 10 100 10 = 37.5"
  using forecast_confidence_formula [of 100 10 10]
  by (simp add: confidence_def Let_def sqrt_100)

subsection \<open>Trend estimate\<close>

text \<open>
  Claim C5. For every non-empty series of daily counts, the recent average is the
  mean of the last \<open>min(30, len)\<close> counts, the historical average is the mean of
  all counts, and the slope is the least-squares slope of count against the index
  \<open>0..k-1\<close> over the last \<open>k = min(60, len)\<close> points; the slope is 0 with fewer
  than two points or a zero regression denominator (which two or more points never
  produce).
\<close>

theorem trend_estimate:
  assumes "cs \<noteq> []"
  shows "recent_avg cs = mean (map real_of_int (last_points (min 30 (length cs)) cs))
       \<and> overall_avg cs = mean (map real_of_int cs)
       \<and> (length cs < 2 \<longrightarrow> slope cs = 0)
       \<and> (slope_denominator (last_points (min 60 (length cs)) cs) = 0 \<longrightarrow> slope cs = 0)
       \<and> (2 \<le> length cs \<longrightarrow>
            slope cs = spec_ols_slope (map real_of_int (last_points (min 60 (length cs)) cs))
            \<and> slope_denominator (last_points (min 60 (length cs)) cs) \<noteq> 0)"
proof (intro conjI impI)
  have "last_points (min 30 (length cs)) cs \<noteq> []"
    using assms length_last_points [of 30 cs] by (cases cs) auto
  then show "recent_avg cs = mean (map real_of_int (last_points (min 30 (length cs)) cs))"
    by (simp add: recent_avg_def Let_def py_slice_last_min mean_of_ints)
next
  show "overall_avg cs = mean (map real_of_int cs)"
    using assms by (simp add: overall_avg_def mean_of_ints)
next
  assume "length cs < 2"
  moreover have "length (last_points (min 60 (length cs)) cs) = min 60 (length cs)"
    by (rule length_last_points)
  ultimately have "\<not> length (last_points (min 60 (length cs)) cs) > 1"
    by linarith
  then show "slope cs = 0" by (simp add: slope_unfold Let_def)
next
  assume "slope_denominator (last_points (min 60 (length cs)) cs) = 0"
  then show "slope cs = 0" by (simp add: slope_unfold Let_def)
next
  assume "2 \<le> length cs"
  moreover have "length (last_points (min 60 (length cs)) cs) = min 60 (length cs)"
    by (rule length_last_points)
  ultimately have l: "2 \<le> length (last_points (min 60 (length cs)) cs)"
    by linarith
  then have "length (last_points (min 60 (length cs)) cs) > 1" by linarith
  then show "slope cs = spec_ols_slope (map real_of_int (last_points (min 60 (length cs)) cs))"
    using slope_is_ols [OF l] by (simp add: slope_unfold Let_def)
next
  assume "2 \<le> length cs"
  moreover have "length (last_points (min 60 (length cs)) cs) = min 60 (length cs)"
    by (rule length_last_points)
  ultimately have l: "2 \<le> length (last_points (min 60 (length cs)) cs)"
    by linarith
  then show "slope_denominator (last_points (min 60 (length cs)) cs) \<noteq> 0"
    using slope_denominator_pos [OF l] by simp
qed

theorem trend_estimate_witness:
  "recent_avg [1, 2, 4] = 7 / 3 \<and> overall_avg [1, 2, 4] = 7 / 3 \<and> slope [1, 2, 4] = 3 / 2
   \<and> spec_ols_slope (map real_of_int [1, 2, 4]) = 3 / 2 \<and> slope [5] = 0"
  using trend_estimate [of "[1, 2, 4]"] trend_estimate [of "[5]"]
  by (simp add: example_trend example_ols)

subsection \<open>Boroughs left out of the forecast\<close>

text \<open>
  Claim C10. The predictions of \<^verbatim>\<open>predict_borough_complaints\<close> hold no entry for
  a borough whose name is empty or is \<^verbatim>\<open>UNSPECIFIED\<close> in any letter case, and none
  for a borough with fewer than three observed daily points. The reported boroughs
  are exactly the others, once each, and the count field counts only them: an
  omitted borough leaves no trace in the result.
\<close>

theorem borough_omissions:
  "(\<forall>p \<in> set (bf_predictions (predict_borough_complaints now H rs)).
       bp_borough p \<noteq> [] \<and> py_upper (bp_borough p) \<noteq> ''UNSPECIFIED''
     \<and> data_points p = length (observed_points (bp_borough p) rs) \<and> 3 \<le> data_points p)
   \<and> bp_borough ` set (bf_predictions (predict_borough_complaints now H rs)) =
       {b. b \<noteq> [] \<and> py_upper b \<noteq> ''UNSPECIFIED'' \<and> 3 \<le> length (observed_points b rs)}
   \<and> distinct (map bp_borough (bf_predictions (predict_borough_complaints now H rs)))
   \<and> bf_count (predict_borough_complaints now H rs) =
       length (bf_predictions (predict_borough_complaints now H rs))"
proof (intro conjI ballI)
  fix p assume p: "p \<in> set (bf_predictions (predict_borough_complaints now H rs))"
  then have "bp_borough p \<in> {b. b \<noteq> [] \<and> py_upper b \<noteq> ''UNSPECIFIED''
      \<and> 3 \<le> length (observed_points b rs)}"
    using reported_boroughs [of now H rs] by blast
  then show "bp_borough p \<noteq> []" and "py_upper (bp_borough p) \<noteq> ''UNSPECIFIED''"
    and "3 \<le> data_points p" and "data_points p = length (observed_points (bp_borough p) rs)"
    using reported_data_points [OF p] by simp_all
next
  show "bp_borough ` set (bf_predictions (predict_borough_complaints now H rs)) =
       {b. b \<noteq> [] \<and> py_upper b \<noteq> ''UNSPECIFIED'' \<and> 3 \<le> length (observed_points b rs)}"
    by (rule reported_boroughs)
next
  show "distinct (map bp_borough (bf_predictions (predict_borough_complaints now H rs)))"
    by (rule distinct_reported)
next
  show "bf_count (predict_borough_complaints now H rs) =
       length (bf_predictions (predict_borough_complaints now H rs))"
    by (simp add: predict_borough_complaints_def Let_def)
qed

theorem borough_omissions_witness:
  "map bp_borough (bf_predictions (predict_borough_complaints example_now 10 example_rows)) = [''BROOKLYN'']
   \<and> map data_points (bf_predictions (predict_borough_complaints example_now 10 example_rows)) = [3]
   \<and> bf_count (predict_borough_complaints example_now 10 example_rows) = 1
   \<and> length (observed_points ''BROOKLYN'' example_rows) = 3
   \<and> length (observed_points ''QUEENS'' example_rows) = 1
   \<and> length (observed_points ''Unspecified'' example_rows) = 3
   \<and> py_upper ''Unspecified'' = ''UNSPECIFIED''"
  using borough_omissions [of example_now 10 example_rows]
  by (simp add: example_borough_forecast example_upper example_observed)

subsection \<open>The classifier\<close>

text \<open>
  Claim C6, as amended. The classifier maps ("Residential Disposal Complaint",
  "Storage Area issue") to other and ("", "overflowing dumpster") to overflow. The
  ten specific-type keyword rules on the combined text (unsanitary pigeon
  condition to snow) are evaluated first, then the agency-code rules on the
  complaint type (residential disposal complaint, dumpster complaint, dead animal
  and the rest), then the generic keyword rules on the combined text, then the
  catch-all other. So a dumpster complaint about illegal dumping of trash is a
  trash issue, not illegal dumping.
\<close>

theorem classifier_precedence:
  "request_type ''Residential Disposal Complaint'' ''Storage Area issue'' = ''other''
   \<and> request_type [] ''overflowing dumpster'' = ''overflow''
   \<and> request_type ct d =
       tiered_request_type (complaint_lower_of ct) (descriptor_of d) (combined_text_of ct d)
   \<and> request_type ''Dumpster Complaint'' ''Illegal dumping of trash'' = ''trash_issue''"
  by (simp add: example_storage_area example_overflowing_dumpster example_dumpster_dumping)
     (simp add: request_type_def chain_is_tiered)

text \<open>
  The claim as stated puts the agency-code rules before every keyword rule. A
  dumpster complaint whose descriptor mentions snow is classified by the keyword
  rule for snow, although the agency-code rule matches and would say overflow.
\<close>

theorem classifier_precedence_counterexample:
  "agency_code_rule (complaint_lower_of ''Dumpster Complaint'')
      (descriptor_of ''Overflowing, covered in snow'') = Some ''overflow''
   \<and> request_type ''Dumpster Complaint'' ''Overflowing, covered in snow'' = ''snow''
   \<and> request_type ''Dumpster Complaint'' ''Overflowing, covered in snow'' \<noteq> ''overflow''"
  by (simp add: example_dumpster_snow example_dumpster_snow_agency)

text \<open>
  Claim C7. Classification is total: for every pair of input strings the result is
  one of the twenty categories of the enumeration (the model has no failing
  branch, as the source has none); when no rule of the three tiers matches the
  result is other, in particular when no rule keyword occurs in the combined text;
  and when both inputs are empty or consist of whitespace only the result is other.
\<close>

theorem classification_total:
  "request_type ct d \<in> set categories
   \<and> (specific_type_rule (combined_text_of ct d) = None
        \<and> agency_code_rule (complaint_lower_of ct) (descriptor_of d) = None
        \<and> generic_keyword_rule (combined_text_of ct d) = None \<longrightarrow>
         request_type ct d = ''other'')
   \<and> ((\<forall>w \<in> set all_keywords. \<not> py_in w (combined_text_of ct d)) \<longrightarrow>
         request_type ct d = ''other'')
   \<and> ((\<forall>c \<in> set ct. py_isspace c) \<and> (\<forall>c \<in> set d. py_isspace c) \<longrightarrow>
         request_type ct d = ''other'')"
proof (intro conjI impI)
  show "request_type ct d \<in> set categories"
    unfolding request_type_def by (rule request_type_in_categories)
next
  assume "specific_type_rule (combined_text_of ct d) = None
        \<and> agency_code_rule (complaint_lower_of ct) (descriptor_of d) = None
        \<and> generic_keyword_rule (combined_text_of ct d) = None"
  then show "request_type ct d = ''other''"
    unfolding request_type_def by (intro no_rule_other) simp_all
next
  assume none: "\<forall>w \<in> set all_keywords. \<not> py_in w (combined_text_of ct d)"
  then have "\<forall>w \<in> set all_keywords. \<not> py_in w (complaint_lower_of ct)"
    and "\<forall>w \<in> set all_keywords. \<not> py_in w (descriptor_of d)"
    using in_type_in_text in_descriptor_in_text by blast+
  with none show "request_type ct d = ''other''"
    unfolding request_type_def by (intro no_keyword_other)
next
  assume blank: "(\<forall>c \<in> set ct. py_isspace c) \<and> (\<forall>c \<in> set d. py_isspace c)"
  then have cl: "complaint_lower_of ct = []"
    by (simp add: complaint_lower_of_alt py_strip_blank py_lower_def)
  from blank have dl: "descriptor_of d = d"
    by (simp add: descriptor_of_def py_lower_blank)
  have "\<forall>c \<in> set (combined_text_of ct d). py_isspace c"
    using blank by (simp add: combined_text_of_alt cl dl) (simp add: py_isspace_def)
  then have none: "\<forall>w \<in> set all_keywords. \<not> py_in w (combined_text_of ct d)"
    using blank_text_no_keyword by blast
  then have "\<forall>w \<in> set all_keywords. \<not> py_in w (complaint_lower_of ct)"
    and "\<forall>w \<in> set all_keywords. \<not> py_in w (descriptor_of d)"
    using in_type_in_text in_descriptor_in_text by blast+
  with none show "request_type ct d = ''other''"
    unfolding request_type_def by (intro no_keyword_other)
qed

theorem classification_total_witness:
  "request_type ''Noise'' ''Loud music'' = ''other''
   \<and> specific_type_rule (combined_text_of ''Noise'' ''Loud music'') = None
   \<and> agency_code_rule (complaint_lower_of ''Noise'') (descriptor_of ''Loud music'') = None
   \<and> generic_keyword_rule (combined_text_of ''Noise'' ''Loud music'') = None
   \<and> request_type ''  '' [CHR '' '', CHR 0x09] = ''other''
   \<and> request_type ''Snow'' [] \<in> set categories"
proof -
  have "\<forall>w \<in> set all_keywords. \<not> py_in w (combined_text_of ''Noise'' ''Loud music'')"
    unfolding example_noise_text by (rule example_noise_no_keyword)
  then have a: "request_type ''Noise'' ''Loud music'' = ''other''"
    using classification_total [of "''Noise''" "''Loud music''"] by blast
  have b: "request_type ''  '' [CHR '' '', CHR 0x09] = ''other''"
    using classification_total [of "''  ''" "[CHR '' '', CHR 0x09]"] example_blank by blast
  have c: "request_type ''Snow'' [] \<in> set categories"
    using classification_total [of "''Snow''" "[]"] by blast
  from a b c show ?thesis
    unfolding example_noise_text by (simp add: example_noise_rules)
qed

text \<open>
  Claim C9, as amended. For every category, complaint type and descriptor the
  priority is urgent when the word urgent occurs in the stripped, lower-cased
  complaint type or the word emergency occurs in the lower-cased descriptor;
  otherwise it is high when the category is one of illegal_dumping, rodent,
  overflow, hazardous_materials, mold, air_quality, water_quality; otherwise it is
  normal.
\<close>

theorem priority_inference:
  "priority_chain category cl dl =
     (if py_in ''urgent'' cl \<or> py_in ''emergency'' dl then ''urgent''
      else if category \<in> set high_severity then ''high'' else ''normal'')
   \<and> priority ct d =
       priority_chain (request_type ct d) (py_lower (py_strip ct)) (py_lower d)"
  by (simp add: priority_chain_def priority_def high_severity_def Let_def
      complaint_lower_of_alt descriptor_of_def)

text \<open>
  The claim as stated looks for both words in the whole input text. The source
  looks for urgent in the complaint type only and for emergency in the descriptor
  only: a descriptor that begins with "Urgent" leaves the priority normal, and a
  complaint type "Emergency Response" leaves an overflow complaint at high.
\<close>

theorem priority_inference_counterexample:
  "py_in ''urgent'' (combined_text_of ''Noise'' ''Urgent: loud music'')
   \<and> priority ''Noise'' ''Urgent: loud music'' = ''normal''
   \<and> py_in ''emergency'' (combined_text_of ''Emergency Response'' ''overflowing bin'')
   \<and> priority ''Emergency Response'' ''overflowing bin'' = ''high''"
  by (simp add: example_urgent_descriptor example_emergency_type)

subsection \<open>Seasonal factors\<close>




end
